theory Spec2Isabelle
  imports Complex_Main
begin

section \<open>Data model of ds.py\<close>

text \<open>
  Python values as they occur in the configuration dictionary. Integers and floats are
  both numbers here; the program stores and forwards them and never computes with them.
\<close>

datatype pyval =
    VNone
  | VBool bool
  | VNum real
  | VStr string
  | VList "pyval list"
  | VDict "(string \<times> pyval) list"

text \<open>Python truthiness, as used by \<open>if x:\<close>.\<close>

fun truthy :: "pyval \<Rightarrow> bool" where
  "truthy VNone = False"
| "truthy (VBool b) = b"
| "truthy (VNum x) = (x \<noteq> 0)"
| "truthy (VStr s) = (s \<noteq> [])"
| "truthy (VList xs) = (xs \<noteq> [])"
| "truthy (VDict kvs) = (kvs \<noteq> [])"

text \<open>
  A transcript entry \<open>{"role": ..., "content": ...}\<close>. One \<open>char\<close> stands for one
  character of a Python \<open>str\<close>.
\<close>

record message =
  role :: string
  content :: string

text \<open>
  What a file holds, seen through the two parsers the program uses: \<open>json.load\<close> for
  the transcript files and \<open>ast.parse\<close> for \<open>settings.py\<close>. The syntax tree keeps
  what \<open>_safe_load_config\<close> inspects: whether a statement is an assignment, its
  targets, and whether the assigned expression is a literal (\<open>ast.literal_eval\<close>
  accepts it and gives the value) or not (\<open>ast.literal_eval\<close> raises ValueError and
  evaluates nothing).
\<close>

datatype target = Name string | OtherTarget

datatype expr = Literal pyval | NonLiteral

datatype stmt = Assign "target list" expr | OtherStmt

datatype filedata =
    JsonDoc "message list"
  | PySrc "stmt list"
  | Garbage

text \<open>
  The three places the program touches: \<open>script_dir / "settings.py"\<close>,
  \<open>script_dir / "latest.json"\<close>, and a name relative to the working directory (the
  archive written by \<open>save_messages\<close>), given as its path from there.
\<close>

datatype path = ConfigPath | MessagesPath | CwdFile string

datatype exit_reason =
    ConfigMissing
  | ConfigParseFailed string
  | ConfigIncomplete "string set"

datatype exit_arg = Code int | Msg exit_reason

datatype exn =
    SystemExit exit_arg
  | KeyboardInterrupt
  | FileNotFoundError
  | IsADirectoryError
  | NotADirectoryError
  | PermissionError
  | JSONDecodeError
  | SyntaxError
  | ValueError
  | TypeError
  | AttributeError
  | IndexError
  | KeyError
  | EOFError
  | APIError

text \<open>
  What reaches the terminal, in order. \<open>Print\<close> carries the exact text of a
  \<open>print\<close> call including its line end. The three notices stand for the program's
  messages with non-ASCII text: "data saved to <messages_path>" (\<open>save_data\<close>),
  "created new configuration file <path>" (\<open>main\<close>) and the lines of
  \<open>show_status\<close>. \<open>ExitMessage\<close> is the text \<open>sys.exit(str)\<close> writes to stderr,
  \<open>Traceback\<close> the report of \<open>sys.__excepthook__\<close>.
\<close>

datatype out =
    Print string
  | SavedNotice
  | CreatedNotice
  | StatusReport "(string \<rightharpoonup> pyval)"
  | ExitMessage exit_reason
  | Traceback exn

definition nl :: string where
  "nl = [CHR 0x0A]"

text \<open>
  The \<open>ConfigManager\<close> instance \<open>manager\<close> together with the part of the world it
  acts on: the files, the directories that exist below the working directory, a log of
  every physical write, and the terminal.
\<close>

record state =
  config :: "string \<rightharpoonup> pyval"
  messages :: "message list"
  saved :: bool
  files :: "path \<rightharpoonup> filedata"
  subdirs :: "string list"
  write_log :: "(path \<times> filedata) list"
  console :: "out list"

text \<open>
  A call either returns or raises; both carry the state reached. An exception that
  nothing catches travels up to \<open>interpreter_exit\<close> below.
\<close>

datatype result = Return state | Raise exn state

definition bind :: "result \<Rightarrow> (state \<Rightarrow> result) \<Rightarrow> result" where
  "bind r f = (case r of Return s \<Rightarrow> f s | Raise e s \<Rightarrow> Raise e s)"

definition emit :: "out list \<Rightarrow> state \<Rightarrow> state" where
  "emit os s = s\<lparr>console := console s @ os\<rparr>"

text \<open>\<open>open(p, 'w')\<close> followed by \<open>json.dump\<close> or \<open>write_text\<close>: one physical write.\<close>

definition write_file :: "path \<Rightarrow> filedata \<Rightarrow> state \<Rightarrow> state" where
  "write_file p d s = s\<lparr>files := (files s)(p \<mapsto> d), write_log := write_log s @ [(p, d)]\<rparr>"

text \<open>
  Opening a name relative to the working directory for writing, as \<open>open(name, 'w')\<close>
  does on a POSIX system. \<open>subdirs\<close> lists the directories that exist below the
  working directory, each as its path from there (\<open>a\<close>, \<open>a/b\<close>). The name is
  resolved component by component: an empty component (a doubled slash) and \<open>.\<close>
  stay in place, \<open>..\<close> steps back, a name steps into that directory. A missing
  directory raises FileNotFoundError, a file in the place of a directory
  NotADirectoryError, a name that denotes a directory IsADirectoryError, an embedded
  NUL character ValueError. On success the result is the path of the file from the
  working directory.

  Two assumptions on the environment: the script directory lies outside the working
  directory, so that no such name denotes one of its two files, and opening those two
  files succeeds; and what lies outside the working directory (an absolute name, or
  \<open>..\<close> from the working directory itself) is not writable.
\<close>

fun split_slash :: "string \<Rightarrow> string list" where
  "split_slash [] = [[]]"
| "split_slash (c # cs) =
     (if c = CHR ''/'' then [] # split_slash cs
      else (case split_slash cs of [] \<Rightarrow> [[c]] | w # ws \<Rightarrow> (c # w) # ws))"

fun join_slash :: "string list \<Rightarrow> string" where
  "join_slash [] = []"
| "join_slash [w] = w"
| "join_slash (w # ws) = w @ ''/'' @ join_slash ws"

fun resolve ::
  "string list \<Rightarrow> (path \<rightharpoonup> filedata) \<Rightarrow> string list \<Rightarrow> string list \<Rightarrow> exn + string"
where
  "resolve ds fs cur [] = Inl IsADirectoryError"
| "resolve ds fs cur (c # rest) =
     (if c = [] \<or> c = ''.'' then resolve ds fs cur rest
      else if c = ''..'' then
        (if cur = [] then Inl PermissionError else resolve ds fs (butlast cur) rest)
      else if join_slash (cur @ [c]) \<in> set ds then resolve ds fs (cur @ [c]) rest
      else if rest = [] then Inr (join_slash (cur @ [c]))
      else if fs (CwdFile (join_slash (cur @ [c]))) \<noteq> None then Inl NotADirectoryError
      else if filter (\<lambda>w. w \<noteq> []) rest = [] then Inl IsADirectoryError
      else Inl FileNotFoundError)"

definition open_w :: "string list \<Rightarrow> (path \<rightharpoonup> filedata) \<Rightarrow> string \<Rightarrow> exn + string" where
  "open_w ds fs name =
     (if CHR 0x00 \<in> set name then Inl ValueError
      else if name = [] then Inl FileNotFoundError
      else if take 1 name = ''/'' then Inl PermissionError
      else resolve ds fs [] (split_slash name))"

definition json_load :: "filedata \<Rightarrow> message list option" where
  "json_load d = (case d of JsonDoc ms \<Rightarrow> Some ms | PySrc b \<Rightarrow> None | Garbage \<Rightarrow> None)"

text \<open>
  \<open>ast.parse\<close>: a JSON array of message objects is also a Python expression
  statement; other text is a SyntaxError.
\<close>

definition ast_parse :: "filedata \<Rightarrow> stmt list option" where
  "ast_parse d = (case d of PySrc b \<Rightarrow> Some b | JsonDoc ms \<Rightarrow> Some [OtherStmt] | Garbage \<Rightarrow> None)"

section \<open>ConfigManager\<close>

definition required_keys :: "string list" where
  "required_keys = [''api_key'', ''base_url'', ''model'', ''temperature'', ''memory'']"

text \<open>A dict display keeps the last value given for a key.\<close>

definition dict_of :: "(string \<times> pyval) list \<Rightarrow> (string \<rightharpoonup> pyval)" where
  "dict_of kvs = map_of (rev kvs)"

text \<open>
  \<open>_safe_load_config\<close>: the first statement that assigns to the single name
  \<open>DATABASE\<close> decides; its value goes through \<open>ast.literal_eval\<close>.
\<close>

fun find_database :: "stmt list \<Rightarrow> exn + pyval" where
  "find_database [] = Inl ValueError"
| "find_database (Assign [Name n] e # body) =
     (if n = ''DATABASE''
      then (case e of Literal v \<Rightarrow> Inr v | NonLiteral \<Rightarrow> Inl ValueError)
      else find_database body)"
| "find_database (node # body) = find_database body"

definition safe_load_config :: "filedata \<Rightarrow> exn + pyval" where
  "safe_load_config d =
     (case ast_parse d of None \<Rightarrow> Inl SyntaxError | Some body \<Rightarrow> find_database body)"

text \<open>Python's \<open>k in s\<close> for two strings.\<close>

fun is_substring :: "string \<Rightarrow> string \<Rightarrow> bool" where
  "is_substring k [] = (k = [])"
| "is_substring k (c # cs) = (take (length k) (c # cs) = k \<or> is_substring k cs)"

text \<open>
  The body of the \<open>try\<close> in \<open>_validate_config\<close> after the load, for a value that is
  not a dict: \<open>k in self.config\<close> raises TypeError on a scalar; on a string or a list
  the membership tests run, and then either \<open>self.config.keys()\<close> raises
  AttributeError or \<open>self.config['stream'] = True\<close> raises TypeError.
\<close>

fun check_non_dict :: "pyval \<Rightarrow> exn" where
  "check_non_dict (VStr s) =
     (if list_all (\<lambda>k. is_substring k s) required_keys then TypeError else AttributeError)"
| "check_non_dict (VList xs) =
     (if list_all (\<lambda>k. VStr k \<in> set xs) required_keys then TypeError else AttributeError)"
| "check_non_dict v = TypeError"

text \<open>
  The text of \<open>str(e)\<close> in the exit message is not modelled beyond the exception's
  class name.
\<close>

fun exn_name :: "exn \<Rightarrow> string" where
  "exn_name (SystemExit a) = ''SystemExit''"
| "exn_name KeyboardInterrupt = ''KeyboardInterrupt''"
| "exn_name FileNotFoundError = ''FileNotFoundError''"
| "exn_name IsADirectoryError = ''IsADirectoryError''"
| "exn_name NotADirectoryError = ''NotADirectoryError''"
| "exn_name PermissionError = ''PermissionError''"
| "exn_name JSONDecodeError = ''JSONDecodeError''"
| "exn_name SyntaxError = ''SyntaxError''"
| "exn_name ValueError = ''ValueError''"
| "exn_name TypeError = ''TypeError''"
| "exn_name AttributeError = ''AttributeError''"
| "exn_name IndexError = ''IndexError''"
| "exn_name KeyError = ''KeyError''"
| "exn_name EOFError = ''EOFError''"
| "exn_name APIError = ''APIError''"

definition missing_keys :: "(string \<times> pyval) list \<Rightarrow> string list" where
  "missing_keys kvs = filter (\<lambda>k. dict_of kvs k = None) required_keys"

text \<open>
  \<open>_validate_config\<close>. \<open>sys.exit\<close> raises SystemExit, which \<open>except Exception\<close>
  does not catch; every other exception of the \<open>try\<close> body becomes the
  parse-failure exit.
\<close>

definition validate_config :: "state \<Rightarrow> result" where
  "validate_config s =
     (case files s ConfigPath of
        None \<Rightarrow> Raise (SystemExit (Msg ConfigMissing)) s
      | Some d \<Rightarrow>
          (case safe_load_config d of
             Inl e \<Rightarrow> Raise (SystemExit (Msg (ConfigParseFailed (exn_name e)))) s
           | Inr (VDict kvs) \<Rightarrow>
               (if list_all (\<lambda>k. dict_of kvs k \<noteq> None) required_keys
                then Return (s\<lparr>config := (dict_of kvs)(''stream'' \<mapsto> VBool True)\<rparr>)
                else Raise (SystemExit (Msg (ConfigIncomplete (set (missing_keys kvs)))))
                       (s\<lparr>config := dict_of kvs\<rparr>))
           | Inr v \<Rightarrow>
               Raise (SystemExit (Msg (ConfigParseFailed (exn_name (check_non_dict v))))) s))"

text \<open>\<open>self.config.get('memory', True)\<close>, read as a condition.\<close>

definition config_get :: "(string \<rightharpoonup> pyval) \<Rightarrow> string \<Rightarrow> pyval \<Rightarrow> pyval" where
  "config_get c k d = (case c k of None \<Rightarrow> d | Some v \<Rightarrow> v)"

definition memory_enabled :: "state \<Rightarrow> bool" where
  "memory_enabled s = truthy (config_get (config s) ''memory'' (VBool True))"

text \<open>\<open>save_data\<close>: the flag is set on every call, whether or not a file was written.\<close>

definition save_data :: "state \<Rightarrow> state" where
  "save_data s =
     (if \<not> saved s \<and> memory_enabled s
      then emit [SavedNotice] (write_file MessagesPath (JsonDoc (messages s)) s)
      else s)\<lparr>saved := True\<rparr>"

text \<open>
  \<open>save_messages\<close>. The date is \<open>datetime.now().strftime('%Y-%m-%d')\<close>, supplied by
  the environment; \<open>None\<close> formats as the text \<open>None\<close>.
\<close>

definition archive_name :: "string \<Rightarrow> message list \<Rightarrow> string" where
  "archive_name current_date ms =
     current_date @ ''_'' @ (case ms of [] \<Rightarrow> ''None'' | m # rest \<Rightarrow> take 32 (content m)) @ ''.json''"

definition save_messages :: "string \<Rightarrow> state \<Rightarrow> result" where
  "save_messages current_date s =
     (let new_file_name = archive_name current_date (messages s)
      in case open_w (subdirs s) (files s) new_file_name of
           Inl e \<Rightarrow> Raise e s
         | Inr p \<Rightarrow>
             Return ((write_file (CwdFile p) (JsonDoc (messages s)) s)\<lparr>messages := []\<rparr>))"

section \<open>Exit paths\<close>

text \<open>
  \<open>sys.exit(code)\<close> raises SystemExit. \<open>handle_exit\<close> is the handler of SIGINT and
  SIGTERM, \<open>exception_hook\<close> replaces \<open>sys.excepthook\<close>; \<open>manager.save_data\<close> is
  the one function registered with \<open>atexit\<close>.
\<close>

definition sys_exit :: "int \<Rightarrow> state \<Rightarrow> result" where
  "sys_exit code s = Raise (SystemExit (Code code)) s"

definition handle_exit :: "state \<Rightarrow> result" where
  "handle_exit s = sys_exit 0 (save_data s)"

definition exception_hook :: "exn \<Rightarrow> state \<Rightarrow> result" where
  "exception_hook e s = sys_exit 1 (emit [Traceback e] (save_data s))"

fun system_exit_arg :: "exn \<Rightarrow> exit_arg option" where
  "system_exit_arg (SystemExit a) = Some a"
| "system_exit_arg e = None"

definition exit_code :: "exit_arg \<Rightarrow> int" where
  "exit_code a = (case a of Code n \<Rightarrow> n | Msg r \<Rightarrow> 1)"

definition exit_report :: "exit_arg \<Rightarrow> out list" where
  "exit_report a = (case a of Code n \<Rightarrow> [] | Msg r \<Rightarrow> [ExitMessage r])"

text \<open>
  The interpreter's shutdown once the handlers of lines 95 to 98 are installed: a
  SystemExit prints its message, if it has one, then the \<open>atexit\<close> callback runs and
  the process ends with the status.
\<close>

definition finalize :: "exit_arg \<Rightarrow> state \<Rightarrow> state \<times> int" where
  "finalize a s = (save_data (emit (exit_report a) s), exit_code a)"

text \<open>
  The end of the main module. A return is exit status 0. A SystemExit that reaches the
  top ends the process with its own status. Any other exception goes to
  \<open>exception_hook\<close>, whose \<open>sys.exit(1)\<close> ends the process.
\<close>

definition interpreter_exit :: "result \<Rightarrow> state \<times> int" where
  "interpreter_exit r =
     (case r of
        Return s \<Rightarrow> finalize (Code 0) s
      | Raise e s \<Rightarrow>
          (case system_exit_arg e of
             Some a \<Rightarrow> finalize a s
           | None \<Rightarrow>
               (case exception_hook e s of
                  Return s' \<Rightarrow> finalize (Code 1) s'
                | Raise e' s' \<Rightarrow>
                    (case system_exit_arg e' of
                       Some a \<Rightarrow> finalize a s'
                     | None \<Rightarrow> finalize (Code 1) s'))))"

section \<open>The chat loop\<close>

text \<open>
  One streamed chunk, reduced to what the loop reads: \<open>chunk.choices\<close>, and of its
  first element the two optional fragments \<open>delta.reasoning_content\<close> and
  \<open>delta.content\<close>.
\<close>

record delta =
  reasoning_content :: "string option"
  delta_content :: "string option"

record chunk =
  choices :: "delta list"

text \<open>An optional fragment as its text; \<open>None\<close> and the empty string are both falsy.\<close>

definition fragment :: "string option \<Rightarrow> string" where
  "fragment x = (case x of None \<Rightarrow> [] | Some t \<Rightarrow> t)"

definition marker :: string where
  "marker = ''==========Reasoning finished.==========''"

text \<open>
  The \<open>for chunk in response\<close> loop of lines 163 to 174, with its two accumulators
  and the output produced so far. \<open>chunk.choices[0]\<close> raises IndexError on an empty
  list. The key \<open>model\<close> has been read at line 154 already, so its lookup cannot fail
  here.
\<close>

fun stream_loop ::
  "(string \<rightharpoonup> pyval) \<Rightarrow> chunk list \<Rightarrow> string \<Rightarrow> string \<Rightarrow> out list \<Rightarrow> exn option \<times> string \<times> out list"
where
  "stream_loop cfg [] rc c os = (None, c, os)"
| "stream_loop cfg (ch # rest) rc c os =
     (case choices ch of
        [] \<Rightarrow> (Some IndexError, c, os)
      | d # ds \<Rightarrow>
          (let r = fragment (reasoning_content d); a = fragment (delta_content d)
           in if r \<noteq> [] then
                stream_loop cfg rest (rc @ r) c
                  (os @ (if rc = [] then [Print ''Thinking :''] else []) @ [Print r])
              else if a \<noteq> [] then
                stream_loop cfg rest rc (c @ a)
                  (os @ (if rc = [] \<and> cfg ''model'' = Some (VStr ''deepseek-reasoner'')
                         then [Print nl, Print (marker @ nl)] else []) @ [Print a])
              else stream_loop cfg rest rc c os))"

text \<open>
  The external chat service: a request is the model, the transcript sent and the
  temperature. A streamed request gives the chunks, a blocking one the contents of
  \<open>response.choices\<close>. A request may end early: the client raises, or a signal
  (SIGINT or SIGTERM) arrives while the program waits for the service, which runs
  \<open>handle_exit\<close>. For a streamed request this happens at the request itself, before
  anything is printed, or after some chunks have been consumed. \<open>date_now\<close> is
  \<open>datetime.now().strftime('%Y-%m-%d')\<close>.

  At the prompt three things can arrive. A line. Ctrl-C: \<open>prompt\<close> of prompt_toolkit
  reads the terminal itself and raises KeyboardInterrupt, and it treats a SIGINT
  delivered while it runs the same way, so the handler of line 96 does not run. And
  SIGTERM, which runs \<open>handle_exit\<close>.
\<close>

type_synonym request = "pyval \<times> message list \<times> pyval"

datatype cause = Error exn | Sig

datatype stream_stop = AtRequest cause | AfterChunks "chunk list" cause

datatype input = Line string | Interrupt | Terminate

record env =
  date_now :: string
  create_stream :: "request \<Rightarrow> stream_stop + chunk list"
  create :: "request \<Rightarrow> cause + string list"
  inputs :: "input list"

definition interrupted :: "cause \<Rightarrow> state \<Rightarrow> result" where
  "interrupted why s = (case why of Error e \<Rightarrow> Raise e s | Sig \<Rightarrow> handle_exit s)"

definition append_message :: "string \<Rightarrow> string \<Rightarrow> state \<Rightarrow> state" where
  "append_message r c s = s\<lparr>messages := messages s @ [\<lparr>role = r, content = c\<rparr>]\<rparr>"

text \<open>One pass through the body of \<open>while True\<close> after the exit test (lines 151 to 185).\<close>

definition turn :: "env \<Rightarrow> string \<Rightarrow> state \<Rightarrow> result" where
  "turn ev message s =
     (let s1 = append_message ''user'' message s
      in case config s1 ''stream'' of
           None \<Rightarrow> Raise KeyError s1
         | Some st \<Rightarrow>
             (case config s1 ''model'' of
                None \<Rightarrow> Raise KeyError s1
              | Some m \<Rightarrow>
                  (case config s1 ''temperature'' of
                     None \<Rightarrow> Raise KeyError s1
                   | Some t \<Rightarrow>
                       (if truthy st then
                          (case create_stream ev (m, messages s1, t) of
                             Inl (AtRequest why) \<Rightarrow> interrupted why s1
                           | Inl (AfterChunks chunks why) \<Rightarrow>
                               (case stream_loop (config s1) chunks [] [] [Print (''DeepSeek> '' @ nl)] of
                                  (Some e, c, os) \<Rightarrow> Raise e (emit os s1)
                                | (None, c, os) \<Rightarrow> interrupted why (emit os s1))
                           | Inr chunks \<Rightarrow>
                               (case stream_loop (config s1) chunks [] [] [Print (''DeepSeek> '' @ nl)] of
                                  (Some e, c, os) \<Rightarrow> Raise e (emit os s1)
                                | (None, c, os) \<Rightarrow>
                                    Return (append_message ''assistant'' c (emit (os @ [Print nl]) s1))))
                        else
                          (case create ev (m, messages s1, t) of
                             Inl why \<Rightarrow> interrupted why s1
                           | Inr [] \<Rightarrow> Raise IndexError s1
                           | Inr (c # cs) \<Rightarrow>
                               Return (emit [Print (''DeepSeek> '' @ c @ nl)]
                                         (append_message ''assistant'' c s1)))))))"

text \<open>\<open>str.lower\<close> on the ASCII letters, which is all the three exit words need.\<close>

definition lower_char :: "char \<Rightarrow> char" where
  "lower_char c =
     (case map_of (zip ''ABCDEFGHIJKLMNOPQRSTUVWXYZ'' ''abcdefghijklmnopqrstuvwxyz'') c of
        None \<Rightarrow> c
      | Some l \<Rightarrow> l)"

definition lower :: "string \<Rightarrow> string" where
  "lower s = map lower_char s"

text \<open>
  The \<open>while True\<close> loop over what arrives at the prompt. With no input left the
  prompt raises EOFError.
\<close>

fun chat_loop :: "env \<Rightarrow> input list \<Rightarrow> state \<Rightarrow> result" where
  "chat_loop ev [] s = Raise EOFError s"
| "chat_loop ev (Interrupt # rest) s = Raise KeyboardInterrupt s"
| "chat_loop ev (Terminate # rest) s = handle_exit s"
| "chat_loop ev (Line message # rest) s =
     (if lower message \<in> set [''exit'', ''quit'', ''q''] then Return s
      else (case turn ev message s of
              Raise e s' \<Rightarrow> Raise e s'
            | Return s' \<Rightarrow> chat_loop ev rest s'))"

section \<open>main\<close>

text \<open>
  The namespace of \<open>parse_args\<close>. A \<open>store_true\<close> flag is False when absent, so
  argparse always gives \<open>memory\<close> a boolean; the model keeps the source's test
  \<open>args.memory is not None\<close>.
\<close>

record args =
  new :: bool
  key :: "string option"
  beta :: bool
  reasoner :: bool
  memory :: "bool option"
  status :: bool
  temperature :: real
  no_stream :: bool

definition apply_flags :: "args \<Rightarrow> state \<Rightarrow> state" where
  "apply_flags a s =
     (let c1 = (if beta a then (config s)(''base_url'' \<mapsto> VStr ''https://beta.api.deepseek.com/beta'')
                else config s);
          c2 = (if reasoner a then c1(''model'' \<mapsto> VStr ''deepseek-reasoner'') else c1);
          c3 = (case memory a of None \<Rightarrow> c2 | Some m \<Rightarrow> c2(''memory'' \<mapsto> VBool m));
          c4 = (if no_stream a then c3(''stream'' \<mapsto> VBool False) else c3)
      in s\<lparr>config := c4\<rparr>)"

definition load_messages :: "state \<Rightarrow> result" where
  "load_messages s =
     (case files s MessagesPath of
        None \<Rightarrow> Raise FileNotFoundError s
      | Some d \<Rightarrow>
          (case json_load d of
             None \<Rightarrow> Raise JSONDecodeError s
           | Some ms \<Rightarrow> Return (s\<lparr>messages := ms\<rparr>)))"

definition default_config :: "string \<Rightarrow> real \<Rightarrow> (string \<times> pyval) list" where
  "default_config k t =
     [(''api_key'', VStr k),
      (''base_url'', VStr ''https://api.deepseek.com''),
      (''model'', VStr ''deepseek-chat''),
      (''temperature'', VNum t),
      (''memory'', VBool False)]"

definition create_config :: "string \<Rightarrow> real \<Rightarrow> state \<Rightarrow> state" where
  "create_config k t s =
     emit [CreatedNotice]
       (write_file ConfigPath (PySrc [Assign [Name ''DATABASE''] (Literal (VDict (default_config k t)))]) s)"

definition show_status :: "state \<Rightarrow> state" where
  "show_status s = emit [StatusReport (config s)] s"

definition main :: "env \<Rightarrow> args \<Rightarrow> state \<Rightarrow> result" where
  "main ev a s0 =
     bind (let s1 = apply_flags a s0 in if memory_enabled s1 then load_messages s1 else Return s1)
       (\<lambda>s2. if fragment (key a) \<noteq> [] then Return (create_config (fragment (key a)) (temperature a) s2)
             else bind (if new a then save_messages (date_now ev) s2 else Return s2)
                    (\<lambda>s3. if status a then Return (show_status s3)
                          else chat_loop ev (inputs ev) s3))"

text \<open>
  The whole run. \<open>manager = ConfigManager()\<close> at line 84 comes before the handlers
  are installed and before \<open>main\<close>: an exit there ends the process with nothing
  registered.
\<close>

definition initial :: "(path \<rightharpoonup> filedata) \<Rightarrow> string list \<Rightarrow> state" where
  "initial fs ds =
     \<lparr>config = Map.empty, messages = [], saved = False, files = fs, subdirs = ds,
      write_log = [], console = []\<rparr>"

definition program :: "env \<Rightarrow> args \<Rightarrow> (path \<rightharpoonup> filedata) \<Rightarrow> string list \<Rightarrow> state \<times> int" where
  "program ev a fs ds =
     (case validate_config (initial fs ds) of
        Raise e s \<Rightarrow>
          (case system_exit_arg e of
             Some x \<Rightarrow> (emit (exit_report x) s, exit_code x)
           | None \<Rightarrow> (emit [Traceback e] s, 1))
      | Return s \<Rightarrow> interpreter_exit (main ev a s))"

text \<open>
  The operations on the manager that the program interleaves with calls of
  \<open>save_data\<close>: appending a message, assigning a configuration item, loading the
  latest transcript, archiving.
\<close>

datatype op = Save | Append message | SetItem string pyval | Load | Archive string

fun apply_op :: "op \<Rightarrow> state \<Rightarrow> state" where
  "apply_op Save s = save_data s"
| "apply_op (Append m) s = s\<lparr>messages := messages s @ [m]\<rparr>"
| "apply_op (SetItem k v) s = s\<lparr>config := (config s)(k \<mapsto> v)\<rparr>"
| "apply_op Load s = (case load_messages s of Return s' \<Rightarrow> s' | Raise e s' \<Rightarrow> s')"
| "apply_op (Archive d) s = (case save_messages d s of Return s' \<Rightarrow> s' | Raise e s' \<Rightarrow> s')"

fun run_ops :: "op list \<Rightarrow> state \<Rightarrow> state" where
  "run_ops [] s = s"
| "run_ops (x # xs) s = run_ops xs (apply_op x s)"

text \<open>The contents written to the latest-transcript file, oldest first.\<close>

definition latest_writes :: "state \<Rightarrow> filedata list" where
  "latest_writes s = map snd (filter (\<lambda>w. fst w = MessagesPath) (write_log s))"

section \<open>Concrete runs\<close>

text \<open>
  The configuration file of the specification's scenario A, with the \<open>memory\<close> entry
  and the model left open, and a latest-transcript file holding one message.
\<close>

definition settings_file :: "string \<Rightarrow> bool \<Rightarrow> filedata" where
  "settings_file m mem =
     PySrc [Assign [Name ''DATABASE'']
       (Literal (VDict [(''api_key'', VStr ''x''),
                        (''base_url'', VStr ''https://api.deepseek.com''),
                        (''model'', VStr m),
                        (''temperature'', VNum (7 / 10)),
                        (''memory'', VBool mem)]))]"

definition hello :: message where
  "hello = \<lparr>role = ''user'', content = ''hello''\<rparr>"

fun scenario_files :: "bool \<Rightarrow> path \<Rightarrow> filedata option" where
  "scenario_files mem ConfigPath = Some (settings_file ''deepseek-chat'' mem)"
| "scenario_files mem MessagesPath = Some (JsonDoc [hello])"
| "scenario_files mem (CwdFile n) = None"

fun no_files :: "path \<Rightarrow> filedata option" where
  "no_files p = None"

fun config_only :: "filedata \<Rightarrow> path \<Rightarrow> filedata option" where
  "config_only d ConfigPath = Some d"
| "config_only d p = None"

text \<open>The namespace of a command line without flags, and the one of \<open>-k mykey\<close>.\<close>

definition no_flags :: args where
  "no_flags =
     \<lparr>new = False, key = None, beta = False, reasoner = False, memory = Some False,
      status = False, temperature = 7 / 10, no_stream = False\<rparr>"

definition key_flag :: args where
  "key_flag = no_flags\<lparr>key := Some ''mykey''\<rparr>"

definition memory_flag :: args where
  "memory_flag = no_flags\<lparr>memory := Some True\<rparr>"

text \<open>A service that streams the given chunks, and a user who types the given lines.\<close>

definition streaming_env :: "chunk list \<Rightarrow> string list \<Rightarrow> env" where
  "streaming_env chunks lines =
     \<lparr>date_now = ''2026-11-04'', create_stream = (\<lambda>r. Inr chunks),
      create = (\<lambda>r. Inl (Error APIError)), inputs = map Line lines\<rparr>"

text \<open>
  A user at the prompt with the given lines, keys and signals; and a user who types the
  given lines while a signal arrives during every request.
\<close>

definition prompt_env :: "input list \<Rightarrow> env" where
  "prompt_env ins =
     \<lparr>date_now = ''2026-11-04'', create_stream = (\<lambda>r. Inl (AtRequest (Error APIError))),
      create = (\<lambda>r. Inl (Error APIError)), inputs = ins\<rparr>"

definition signal_env :: "string list \<Rightarrow> env" where
  "signal_env lines =
     \<lparr>date_now = ''2026-11-04'', create_stream = (\<lambda>r. Inl (AtRequest Sig)),
      create = (\<lambda>r. Inl Sig), inputs = map Line lines\<rparr>"

definition reasoning :: "string \<Rightarrow> chunk" where
  "reasoning t = \<lparr>choices = [\<lparr>reasoning_content = Some t, delta_content = None\<rparr>]\<rparr>"

definition answer :: "string \<Rightarrow> chunk" where
  "answer t = \<lparr>choices = [\<lparr>reasoning_content = None, delta_content = Some t\<rparr>]\<rparr>"

definition both :: "string \<Rightarrow> string \<Rightarrow> chunk" where
  "both r t = \<lparr>choices = [\<lparr>reasoning_content = Some r, delta_content = Some t\<rparr>]\<rparr>"

text \<open>
  The manager once the configuration is loaded, with the given model and memory
  setting in its configuration.
\<close>

definition started :: "string \<Rightarrow> bool \<Rightarrow> state" where
  "started m mem =
     \<lparr>config = (dict_of [(''api_key'', VStr ''x''),
                          (''base_url'', VStr ''https://api.deepseek.com''),
                          (''model'', VStr m),
                          (''temperature'', VNum (7 / 10)),
                          (''memory'', VBool mem)])(''stream'' \<mapsto> VBool True),
      messages = [], saved = False, files = scenario_files mem, subdirs = [],
      write_log = [], console = []\<rparr>"

definition state_of :: "result \<Rightarrow> state" where
  "state_of r = (case r of Return s \<Rightarrow> s | Raise e s \<Rightarrow> s)"

text \<open>
  The text of the answer fragments of a stream in order, and the part of it that the
  loop keeps: a chunk's answer fragment counts only when the chunk has no reasoning
  fragment, since the loop's second branch is an \<open>elif\<close>.
\<close>

definition answer_text :: "chunk list \<Rightarrow> string" where
  "answer_text chunks =
     concat (map (\<lambda>ch. case choices ch of [] \<Rightarrow> [] | d # ds \<Rightarrow> fragment (delta_content d)) chunks)"

definition kept_answer_text :: "chunk list \<Rightarrow> string" where
  "kept_answer_text chunks =
     concat (map (\<lambda>ch. case choices ch of
                          [] \<Rightarrow> []
                        | d # ds \<Rightarrow> if fragment (reasoning_content d) \<noteq> [] then []
                                    else fragment (delta_content d)) chunks)"

definition reasoning_fragments :: "chunk list \<Rightarrow> string list" where
  "reasoning_fragments chunks =
     filter (\<lambda>r. r \<noteq> [])
       (map (\<lambda>ch. case choices ch of [] \<Rightarrow> [] | d # ds \<Rightarrow> fragment (reasoning_content d)) chunks)"

definition with_hello :: "bool \<Rightarrow> state" where
  "with_hello mem = (started ''deepseek-chat'' mem)\<lparr>messages := [hello]\<rparr>"

definition slash_first :: state where
  "slash_first = (started ''deepseek-chat'' True)\<lparr>messages := [\<lparr>role = ''user'', content = ''1/2''\<rparr>]\<rparr>"

definition incomplete_settings :: filedata where
  "incomplete_settings = PySrc [Assign [Name ''DATABASE''] (Literal (VDict [(''api_key'', VStr ''x'')]))]"

text \<open>
  A run with \<open>-n -m\<close> over a latest-transcript file whose first message contains a
  slash.
\<close>

fun slash_files :: "path \<Rightarrow> filedata option" where
  "slash_files ConfigPath = Some (settings_file ''deepseek-chat'' True)"
| "slash_files MessagesPath = Some (JsonDoc [\<lparr>role = ''user'', content = ''1/2''\<rparr>])"
| "slash_files (CwdFile n) = None"

definition new_flag :: args where
  "new_flag = no_flags\<lparr>new := True, memory := Some True\<rparr>"

text \<open>What one call of \<open>save_data\<close> in state \<open>s\<close> writes.\<close>

definition once :: "state \<Rightarrow> (path \<times> filedata) list" where
  "once s = (if \<not> saved s \<and> memory_enabled s then [(MessagesPath, JsonDoc (messages s))] else [])"

section \<open>Facts about save_data\<close>

lemmas run_defs =
  program_def validate_config_def initial_def settings_file_def safe_load_config_def ast_parse_def
  required_keys_def dict_of_def interpreter_exit_def main_def bind_def apply_flags_def no_flags_def
  memory_enabled_def config_get_def lower_def lower_char_def finalize_def save_data_def
  exit_report_def emit_def exit_code_def fragment_def key_flag_def memory_flag_def streaming_env_def
  load_messages_def json_load_def write_file_def exception_hook_def sys_exit_def handle_exit_def
  turn_def append_message_def reasoning_def answer_def both_def started_def state_of_def
  create_config_def default_config_def save_messages_def archive_name_def open_w_def interrupted_def
  prompt_env_def signal_env_def
  hello_def show_status_def missing_keys_def with_hello_def slash_first_def incomplete_settings_def
  new_flag_def marker_def
  Let_def

lemma saved_save_data: "saved (save_data s)"
  by (simp add: save_data_def)

lemma save_data_when_saved: "saved s \<Longrightarrow> save_data s = s"
  by (cases s) (simp add: save_data_def)

lemma save_data_idem: "save_data (save_data s) = save_data s"
  by (rule save_data_when_saved) (rule saved_save_data)

lemma write_log_save_data: "write_log (save_data s) = write_log s @ once s"
  by (simp add: save_data_def emit_def write_file_def once_def)


lemma apply_op_saved:
  "saved s \<Longrightarrow> saved (apply_op x s) \<and> latest_writes (apply_op x s) = latest_writes s
     \<and> files (apply_op x s) MessagesPath = files s MessagesPath"
  by (cases x)
     (auto simp: save_data_when_saved save_messages_def load_messages_def latest_writes_def
           write_file_def Let_def
           split: option.splits sum.splits)

lemma run_ops_saved:
  "saved s \<Longrightarrow> saved (run_ops xs s) \<and> latest_writes (run_ops xs s) = latest_writes s
     \<and> files (run_ops xs s) MessagesPath = files s MessagesPath"
proof (induction xs arbitrary: s)
  case Nil
  then show ?case by simp
next
  case (Cons x xs)
  from apply_op_saved[OF Cons.prems, of x] Cons.IH[of "apply_op x s"]
  show ?case by simp
qed

lemma latest_writes_save_data: "latest_writes (save_data s) = latest_writes s @ map snd (once s)"
  by (simp add: latest_writes_def write_log_save_data once_def)




text \<open>
  C9: \<open>save_data\<close> sets the saved flag on every call. When memory is disabled at that
  call, it writes no file, and no later operation of the process writes the
  latest-transcript file any more, including a later \<open>save_data\<close> after memory has
  been switched on.
\<close>

theorem saved_flag_set_unconditionally:
  "saved (save_data s)
   \<and> (\<not> memory_enabled s \<longrightarrow>
        write_log (save_data s) = write_log s
      \<and> files (save_data s) = files s
      \<and> latest_writes (run_ops xs (save_data s)) = latest_writes s
      \<and> files (run_ops xs (save_data s)) MessagesPath = files s MessagesPath)"
proof -
  have "files (save_data s) = files s" if "\<not> memory_enabled s"
    using that by (simp add: save_data_def)
  moreover have "latest_writes (run_ops xs (save_data s)) = latest_writes (save_data s)"
    and "files (run_ops xs (save_data s)) MessagesPath = files (save_data s) MessagesPath"
    using run_ops_saved[OF saved_save_data] by simp_all
  ultimately show ?thesis
    by (simp add: saved_save_data write_log_save_data latest_writes_save_data once_def)
qed

theorem saved_flag_set_unconditionally_witness:
  "\<not> memory_enabled (with_hello False)
   \<and> saved (save_data (with_hello False))
   \<and> memory_enabled (run_ops [SetItem ''memory'' (VBool True)] (save_data (with_hello False)))
   \<and> latest_writes (run_ops [SetItem ''memory'' (VBool True), Append hello, Save]
        (save_data (with_hello False))) = []
   \<and> files (run_ops [SetItem ''memory'' (VBool True), Append hello, Save]
        (save_data (with_hello False))) MessagesPath = Some (JsonDoc [hello])"
proof -
  have h: "\<not> memory_enabled (with_hello False)"
    by (simp add: with_hello_def started_def memory_enabled_def config_get_def dict_of_def)
  have m: "memory_enabled (run_ops [SetItem ''memory'' (VBool True)] (save_data (with_hello False)))"
    by (simp add: run_defs)
  have w: "latest_writes (with_hello False) = []"
    "files (with_hello False) MessagesPath = Some (JsonDoc [hello])"
    by (simp_all add: with_hello_def started_def latest_writes_def hello_def)
  show ?thesis
    using h m
      saved_flag_set_unconditionally[of "with_hello False"
        "[SetItem ''memory'' (VBool True), Append hello, Save]"]
    by (simp add: w)
qed

section \<open>Exit paths\<close>

lemma save_data_emit_saved: "saved s \<Longrightarrow> save_data (emit os s) = emit os s"
  by (rule save_data_when_saved) (simp add: emit_def)

lemma interpreter_exit_handle_exit: "interpreter_exit (handle_exit s) = (save_data s, 0)"
  by (simp add: interpreter_exit_def handle_exit_def sys_exit_def finalize_def exit_report_def
        exit_code_def emit_def save_data_idem)

lemma interpreter_exit_uncaught:
  assumes "system_exit_arg e = None"
  shows "interpreter_exit (Raise e s) = (emit [Traceback e] (save_data s), 1)"
proof -
  have "save_data (emit [Traceback e] (save_data s)) = emit [Traceback e] (save_data s)"
    by (rule save_data_emit_saved) (rule saved_save_data)
  moreover have "emit [] (emit [Traceback e] (save_data s)) = emit [Traceback e] (save_data s)"
    by (simp add: emit_def)
  ultimately show ?thesis
    using assms
    by (simp add: interpreter_exit_def sys_exit_def finalize_def exit_report_def
          exit_code_def exception_hook_def)
qed

text \<open>
  What the two handlers do by themselves, before the interpreter shuts down: each saves
  first and then raises SystemExit with its status; \<open>exception_hook\<close> reports the
  error between the two.
\<close>

lemma handle_exit_saves_then_exits:
  "handle_exit s = Raise (SystemExit (Code 0)) (save_data s)"
  by (simp add: handle_exit_def sys_exit_def)

lemma exception_hook_saves_reports_exits:
  "exception_hook e s = Raise (SystemExit (Code 1)) (emit [Traceback e] (save_data s))"
  by (simp add: exception_hook_def sys_exit_def)

text \<open>
  With the \<open>atexit\<close> callback after them: where \<open>handle_exit\<close> runs, the process ends
  with status 0 in the state its save left; an exception other than SystemExit that
  nothing catches ends it with status 1 after the save and the report; on both paths
  the writes of the whole exit are those of one \<open>save_data\<close>, at most one.
\<close>

lemma exit_paths_write_once:
  "interpreter_exit (handle_exit s) = (save_data s, 0)
   \<and> write_log (fst (interpreter_exit (handle_exit s))) = write_log s @ once s
   \<and> (system_exit_arg e = None \<longrightarrow>
        interpreter_exit (Raise e s) = (emit [Traceback e] (save_data s), 1)
      \<and> write_log (fst (interpreter_exit (Raise e s))) = write_log s @ once s)
   \<and> length (once s) \<le> 1"
  by (simp add: interpreter_exit_handle_exit interpreter_exit_uncaught write_log_save_data
        once_def emit_def)

text \<open>
  A signal while the program waits for the service runs \<open>handle_exit\<close>: the process
  ends with status 0 and the saved transcript holds the user message without a reply.
\<close>

lemma signal_during_request:
  "snd (program (signal_env [''hi'']) memory_flag (scenario_files True) []) = 0
   \<and> console (fst (program (signal_env [''hi'']) memory_flag
        (scenario_files True) [])) = [SavedNotice]
   \<and> write_log (fst (program (signal_env [''hi'']) memory_flag
        (scenario_files True) []))
     = [(MessagesPath, JsonDoc [hello, \<lparr>role = ''user'', content = ''hi''\<rparr>])]"
  by (simp add: run_defs)

text \<open>
  C7 fails on the code. The claim: an interrupt or termination signal triggers the save
  and then the end of the process with status 0. Line 96 installs \<open>handle_exit\<close> for
  SIGINT with the comment \<open>Ctrl+C\<close>, but while the program waits at the prompt an
  interrupt comes out of \<open>prompt\<close> as KeyboardInterrupt, which nothing catches: the
  run ends through \<open>exception_hook\<close>, with the save, a traceback and status 1.
  SIGTERM at the same place ends the run with status 0 and no traceback.
\<close>

theorem interrupt_at_prompt_exits_with_status_1:
  "snd (program (prompt_env [Interrupt]) memory_flag (scenario_files True) []) = 1
   \<and> console (fst (program (prompt_env [Interrupt]) memory_flag
        (scenario_files True) [])) = [SavedNotice, Traceback KeyboardInterrupt]
   \<and> write_log (fst (program (prompt_env [Interrupt]) memory_flag
        (scenario_files True) [])) = [(MessagesPath, JsonDoc [hello])]
   \<and> snd (program (prompt_env [Terminate]) memory_flag (scenario_files True) []) = 0
   \<and> console (fst (program (prompt_env [Terminate]) memory_flag
        (scenario_files True) [])) = [SavedNotice]"
  by (simp add: run_defs)

section \<open>Configuration loading\<close>

lemma missing_keys_set: "set (missing_keys kvs) = set required_keys - dom (dict_of kvs)"
  by (auto simp: missing_keys_def)

lemma all_keys_iff:
  "list_all (\<lambda>k. dict_of kvs k \<noteq> None) required_keys \<longleftrightarrow> set required_keys \<subseteq> dom (dict_of kvs)"
  by (auto simp: list_all_iff)

lemma validate_config_dict:
  assumes "files s ConfigPath = Some d" and "safe_load_config d = Inr (VDict kvs)"
  shows "validate_config s =
           (if set required_keys \<subseteq> dom (dict_of kvs)
            then Return (s\<lparr>config := (dict_of kvs)(''stream'' \<mapsto> VBool True)\<rparr>)
            else Raise (SystemExit (Msg (ConfigIncomplete (set required_keys - dom (dict_of kvs)))))
                   (s\<lparr>config := dict_of kvs\<rparr>))"
proof -
  have "validate_config s =
          (if list_all (\<lambda>k. dict_of kvs k \<noteq> None) required_keys
           then Return (s\<lparr>config := (dict_of kvs)(''stream'' \<mapsto> VBool True)\<rparr>)
           else Raise (SystemExit (Msg (ConfigIncomplete (set (missing_keys kvs)))))
                  (s\<lparr>config := dict_of kvs\<rparr>))"
    unfolding validate_config_def using assms by simp
  then show ?thesis
    unfolding all_keys_iff missing_keys_set .
qed

lemma validate_config_unparsed:
  assumes "files s ConfigPath = Some d" and "safe_load_config d = Inl e"
  shows "validate_config s = Raise (SystemExit (Msg (ConfigParseFailed (exn_name e)))) s"
  unfolding validate_config_def using assms by simp

lemma validate_config_non_dict:
  assumes "files s ConfigPath = Some d" and "safe_load_config d = Inr v" and "\<forall>kvs. v \<noteq> VDict kvs"
  shows "validate_config s =
           Raise (SystemExit (Msg (ConfigParseFailed (exn_name (check_non_dict v))))) s"
  unfolding validate_config_def using assms by (cases v) simp_all

lemma validate_config_Return:
  assumes "validate_config s = Return s'"
  shows "\<exists>c. s' = s\<lparr>config := c\<rparr>"
  using assms
  by (auto simp: validate_config_def split: option.splits sum.splits pyval.splits if_splits)

lemma program_startup_exit:
  assumes "validate_config (initial fs ds) = Raise (SystemExit (Msg r)) s'"
  shows "program ev a fs ds = (emit [ExitMessage r] s', 1)"
  using assms by (simp add: program_def exit_report_def exit_code_def)

text \<open>
  C8: \<open>_validate_config\<close> ends the process when the configuration file is absent;
  when \<open>_safe_load_config\<close> raises (text that does not parse, no assignment to
  \<open>DATABASE\<close>, or a value that is not a literal, which is rejected and not
  evaluated); when the literal is not a dict; and when one of the five required keys
  is missing, with an exit message that carries exactly the missing keys. Otherwise it
  returns with the loaded dict and \<open>stream\<close> set to True. Each of these exits ends the
  whole program with status 1 and nothing on the terminal but the exit message,
  whatever the arguments, the user's input and the service are.
\<close>

theorem config_loading:
  "(files s ConfigPath = None \<longrightarrow> validate_config s = Raise (SystemExit (Msg ConfigMissing)) s)
   \<and> (files s ConfigPath = Some d \<and> safe_load_config d = Inl e \<longrightarrow>
         validate_config s = Raise (SystemExit (Msg (ConfigParseFailed (exn_name e)))) s)
   \<and> safe_load_config Garbage = Inl SyntaxError
   \<and> safe_load_config (PySrc (Assign [Name ''DATABASE''] NonLiteral # body)) = Inl ValueError
   \<and> (files s ConfigPath = Some d \<and> safe_load_config d = Inr v \<and> (\<forall>kvs. v \<noteq> VDict kvs) \<longrightarrow>
         validate_config s =
           Raise (SystemExit (Msg (ConfigParseFailed (exn_name (check_non_dict v))))) s)
   \<and> (files s ConfigPath = Some d \<and> safe_load_config d = Inr (VDict kvs)
         \<and> \<not> set required_keys \<subseteq> dom (dict_of kvs) \<longrightarrow>
         set required_keys - dom (dict_of kvs) \<noteq> {}
       \<and> validate_config s =
           Raise (SystemExit (Msg (ConfigIncomplete (set required_keys - dom (dict_of kvs)))))
             (s\<lparr>config := dict_of kvs\<rparr>))
   \<and> (files s ConfigPath = Some d \<and> safe_load_config d = Inr (VDict kvs)
         \<and> set required_keys \<subseteq> dom (dict_of kvs) \<longrightarrow>
         validate_config s = Return (s\<lparr>config := (dict_of kvs)(''stream'' \<mapsto> VBool True)\<rparr>))
   \<and> (validate_config (initial fs ds) = Raise (SystemExit (Msg r)) s' \<longrightarrow>
         program ev a fs ds = (emit [ExitMessage r] s', 1))"
proof (intro conjI impI)
  assume "files s ConfigPath = None"
  then show "validate_config s = Raise (SystemExit (Msg ConfigMissing)) s"
    by (simp add: validate_config_def)
next
  assume "files s ConfigPath = Some d \<and> safe_load_config d = Inl e"
  then show "validate_config s = Raise (SystemExit (Msg (ConfigParseFailed (exn_name e)))) s"
    by (simp add: validate_config_unparsed)
next
  show "safe_load_config Garbage = Inl SyntaxError"
    by (simp add: safe_load_config_def ast_parse_def)
next
  show "safe_load_config (PySrc (Assign [Name ''DATABASE''] NonLiteral # body)) = Inl ValueError"
    by (simp add: safe_load_config_def ast_parse_def)
next
  assume "files s ConfigPath = Some d \<and> safe_load_config d = Inr v \<and> (\<forall>kvs. v \<noteq> VDict kvs)"
  then show "validate_config s =
               Raise (SystemExit (Msg (ConfigParseFailed (exn_name (check_non_dict v))))) s"
    by (simp add: validate_config_non_dict)
next
  assume "files s ConfigPath = Some d \<and> safe_load_config d = Inr (VDict kvs)
            \<and> \<not> set required_keys \<subseteq> dom (dict_of kvs)"
  then show "set required_keys - dom (dict_of kvs) \<noteq> {}"
    by blast
next
  assume "files s ConfigPath = Some d \<and> safe_load_config d = Inr (VDict kvs)
            \<and> \<not> set required_keys \<subseteq> dom (dict_of kvs)"
  then show "validate_config s =
               Raise (SystemExit (Msg (ConfigIncomplete (set required_keys - dom (dict_of kvs)))))
                 (s\<lparr>config := dict_of kvs\<rparr>)"
    by (simp add: validate_config_dict)
next
  assume "files s ConfigPath = Some d \<and> safe_load_config d = Inr (VDict kvs)
            \<and> set required_keys \<subseteq> dom (dict_of kvs)"
  then show "validate_config s = Return (s\<lparr>config := (dict_of kvs)(''stream'' \<mapsto> VBool True)\<rparr>)"
    by (simp add: validate_config_dict)
next
  assume "validate_config (initial fs ds) = Raise (SystemExit (Msg r)) s'"
  then show "program ev a fs ds = (emit [ExitMessage r] s', 1)"
    by (rule program_startup_exit)
qed

theorem config_loading_witness:
  "program (streaming_env [] [''hello'']) no_flags no_files []
     = (emit [ExitMessage ConfigMissing] (initial no_files []), 1)
   \<and> validate_config (initial (config_only Garbage) [])
     = Raise (SystemExit (Msg (ConfigParseFailed ''SyntaxError''))) (initial (config_only Garbage) [])
   \<and> validate_config (initial (config_only incomplete_settings) [])
     = Raise (SystemExit (Msg (ConfigIncomplete {''base_url'', ''model'', ''temperature'', ''memory''})))
         ((initial (config_only incomplete_settings) [])\<lparr>config := dict_of [(''api_key'', VStr ''x'')]\<rparr>)
   \<and> validate_config (initial (scenario_files False) []) = Return (started ''deepseek-chat'' False)
   \<and> config (started ''deepseek-chat'' False) ''stream'' = Some (VBool True)"
proof -
  let ?ev = "streaming_env [] [''hello'']"
  have a: "files (initial no_files []) ConfigPath = None"
    by (simp add: initial_def)
  have b: "files (initial (config_only Garbage) []) ConfigPath = Some Garbage"
    "safe_load_config Garbage = Inl SyntaxError"
    by (simp_all add: initial_def safe_load_config_def ast_parse_def)
  have c: "files (initial (config_only incomplete_settings) []) ConfigPath = Some incomplete_settings"
    "safe_load_config incomplete_settings = Inr (VDict [(''api_key'', VStr ''x'')])"
    by (simp_all add: initial_def safe_load_config_def ast_parse_def incomplete_settings_def)
  have c': "set required_keys - dom (dict_of [(''api_key'', VStr ''x'')])
              = {''base_url'', ''model'', ''temperature'', ''memory''}"
    by (auto simp: required_keys_def dict_of_def)
  have c'': "\<not> set required_keys \<subseteq> dom (dict_of [(''api_key'', VStr ''x'')])"
    by (simp add: required_keys_def dict_of_def)
  have d: "files (initial (scenario_files False) []) ConfigPath = Some (settings_file ''deepseek-chat'' False)"
    "safe_load_config (settings_file ''deepseek-chat'' False)
       = Inr (VDict [(''api_key'', VStr ''x''), (''base_url'', VStr ''https://api.deepseek.com''),
                     (''model'', VStr ''deepseek-chat''), (''temperature'', VNum (7 / 10)),
                     (''memory'', VBool False)])"
    by (simp_all add: initial_def safe_load_config_def ast_parse_def settings_file_def)
  have d': "set required_keys \<subseteq> dom (dict_of [(''api_key'', VStr ''x''), (''base_url'', VStr ''https://api.deepseek.com''),
                     (''model'', VStr ''deepseek-chat''), (''temperature'', VNum (7 / 10)),
                     (''memory'', VBool False)])"
    by (simp add: required_keys_def dict_of_def)
  have d'': "(initial (scenario_files False) [])\<lparr>config := (dict_of [(''api_key'', VStr ''x''), (''base_url'', VStr ''https://api.deepseek.com''),
                     (''model'', VStr ''deepseek-chat''), (''temperature'', VNum (7 / 10)),
                     (''memory'', VBool False)])(''stream'' \<mapsto> VBool True)\<rparr> = started ''deepseek-chat'' False"
    by (simp add: initial_def started_def)
  have s: "config (started ''deepseek-chat'' False) ''stream'' = Some (VBool True)"
    by (simp add: started_def)
  note A = config_loading[where s = "initial no_files []" and fs = no_files and ds = "[]"
      and r = ConfigMissing and s' = "initial no_files []" and ev = ?ev and a = no_flags]
  note B = config_loading[where s = "initial (config_only Garbage) []" and d = Garbage and e = SyntaxError]
  note C = config_loading[where s = "initial (config_only incomplete_settings) []"
      and d = incomplete_settings and kvs = "[(''api_key'', VStr ''x'')]"]
  note D = config_loading[where s = "initial (scenario_files False) []"
      and d = "settings_file ''deepseek-chat'' False"
      and kvs = "[(''api_key'', VStr ''x''), (''base_url'', VStr ''https://api.deepseek.com''),
                     (''model'', VStr ''deepseek-chat''), (''temperature'', VNum (7 / 10)),
                     (''memory'', VBool False)]"]
  have 1: "program ?ev no_flags no_files [] = (emit [ExitMessage ConfigMissing] (initial no_files []), 1)"
    using A a by simp
  have 2: "validate_config (initial (config_only Garbage) [])
     = Raise (SystemExit (Msg (ConfigParseFailed ''SyntaxError''))) (initial (config_only Garbage) [])"
    using B b by simp
  have 3: "validate_config (initial (config_only incomplete_settings) [])
     = Raise (SystemExit (Msg (ConfigIncomplete {''base_url'', ''model'', ''temperature'', ''memory''})))
         ((initial (config_only incomplete_settings) [])\<lparr>config := dict_of [(''api_key'', VStr ''x'')]\<rparr>)"
    using C c c' c'' by simp
  have 4: "validate_config (initial (scenario_files False) []) = Return (started ''deepseek-chat'' False)"
    using D d d' d'' by simp
  show ?thesis
    using 1 2 3 4 s by simp
qed

section \<open>Start with memory enabled and no latest-transcript file\<close>

text \<open>
  C10: when the configuration loads, memory is enabled once the flags are applied, and
  the latest-transcript file does not exist, the load in \<open>main\<close> raises
  FileNotFoundError, which reaches \<open>exception_hook\<close>: the empty transcript is written
  to the latest-transcript file, which creates it, the error is reported, and the
  process ends with status 1.
\<close>

theorem missing_latest_file:
  assumes "validate_config (initial fs ds) = Return s0"
    and "memory_enabled (apply_flags a s0)"
    and "fs MessagesPath = None"
  shows "snd (program ev a fs ds) = 1
       \<and> files (fst (program ev a fs ds)) MessagesPath = Some (JsonDoc [])
       \<and> write_log (fst (program ev a fs ds)) = [(MessagesPath, JsonDoc [])]
       \<and> console (fst (program ev a fs ds)) = [SavedNotice, Traceback FileNotFoundError]"
proof -
  from validate_config_Return[OF assms(1)] obtain c where s0: "s0 = (initial fs ds)\<lparr>config := c\<rparr>"
    by blast
  let ?s1 = "apply_flags a s0"
  have fields: "files ?s1 = fs" "messages ?s1 = []" "saved ?s1 = False" "write_log ?s1 = []"
    "console ?s1 = []"
    by (simp_all add: s0 apply_flags_def initial_def Let_def)
  have "main ev a s0 = Raise FileNotFoundError ?s1"
    using assms(2,3) fields(1) by (simp add: main_def bind_def load_messages_def Let_def)
  then have "program ev a fs ds = (emit [Traceback FileNotFoundError] (save_data ?s1), 1)"
    using assms(1) by (simp add: program_def interpreter_exit_uncaught)
  then show ?thesis
    using assms(2) fields by (simp add: save_data_def emit_def write_file_def)
qed

theorem missing_latest_file_witness:
  "validate_config (initial (config_only (settings_file ''deepseek-chat'' True)) [])
     = Return ((started ''deepseek-chat'' True)\<lparr>files := config_only (settings_file ''deepseek-chat'' True)\<rparr>)
   \<and> memory_enabled (apply_flags memory_flag
        ((started ''deepseek-chat'' True)\<lparr>files := config_only (settings_file ''deepseek-chat'' True)\<rparr>))
   \<and> config_only (settings_file ''deepseek-chat'' True) MessagesPath = None
   \<and> snd (program (streaming_env [] [''hello'']) memory_flag
        (config_only (settings_file ''deepseek-chat'' True)) []) = 1
   \<and> files (fst (program (streaming_env [] [''hello'']) memory_flag
        (config_only (settings_file ''deepseek-chat'' True)) [])) MessagesPath = Some (JsonDoc [])
   \<and> console (fst (program (streaming_env [] [''hello'']) memory_flag
        (config_only (settings_file ''deepseek-chat'' True)) [])) = [SavedNotice, Traceback FileNotFoundError]"
proof -
  let ?fs = "config_only (settings_file ''deepseek-chat'' True)"
  let ?s0 = "(started ''deepseek-chat'' True)\<lparr>files := ?fs\<rparr>"
  have h1: "validate_config (initial ?fs []) = Return ?s0"
    by (simp add: validate_config_def initial_def settings_file_def safe_load_config_def
          ast_parse_def required_keys_def dict_of_def started_def)
  have h2: "memory_enabled (apply_flags memory_flag ?s0)"
    by (simp add: memory_enabled_def apply_flags_def memory_flag_def no_flags_def config_get_def
          started_def Let_def)
  have h3: "?fs MessagesPath = None"
    by simp
  show ?thesis
    using h1 h2 h3 missing_latest_file[OF h1 h2 h3, of "streaming_env [] [''hello'']"]
    by simp
qed

section \<open>The streamed turn\<close>

lemma stream_loop_complete:
  assumes "\<forall>ch\<in>set chunks. choices ch \<noteq> []"
  shows "\<exists>os'. stream_loop cfg chunks rc c os = (None, c @ kept_answer_text chunks, os @ os')
               \<and> Print ` set (reasoning_fragments chunks) \<subseteq> set os'"
  using assms
proof (induction chunks arbitrary: rc c os)
  case Nil
  then show ?case by (simp add: kept_answer_text_def reasoning_fragments_def)
next
  case (Cons ch chunks)
  then obtain d ds where d: "choices ch = d # ds"
    by (cases "choices ch") auto
  let ?r = "fragment (reasoning_content d)"
  let ?a = "fragment (delta_content d)"
  from Cons.prems have rest: "\<forall>ch\<in>set chunks. choices ch \<noteq> []" by simp
  show ?case
  proof (cases "?r \<noteq> []")
    case True
    let ?m = "(if rc = [] then [Print ''Thinking :''] else []) @ [Print ?r]"
    from Cons.IH[OF rest, of "rc @ ?r" c "os @ ?m"]
    obtain os' where
      "stream_loop cfg chunks (rc @ ?r) c (os @ ?m) = (None, c @ kept_answer_text chunks, (os @ ?m) @ os')"
      and "Print ` set (reasoning_fragments chunks) \<subseteq> set os'"
      by blast
    with True d show ?thesis
      by (auto simp: kept_answer_text_def reasoning_fragments_def Let_def
            intro!: exI[of _ "?m @ os'"])
  next
    case False
    note nr = this
    show ?thesis
    proof (cases "?a \<noteq> []")
      case True
      let ?m = "(if rc = [] \<and> cfg ''model'' = Some (VStr ''deepseek-reasoner'')
                  then [Print nl, Print (marker @ nl)] else []) @ [Print ?a]"
      from Cons.IH[OF rest, of rc "c @ ?a" "os @ ?m"]
      obtain os' where
        "stream_loop cfg chunks rc (c @ ?a) (os @ ?m) = (None, (c @ ?a) @ kept_answer_text chunks, (os @ ?m) @ os')"
        and "Print ` set (reasoning_fragments chunks) \<subseteq> set os'"
        by blast
      with True nr d show ?thesis
        by (auto simp: kept_answer_text_def reasoning_fragments_def Let_def
              intro!: exI[of _ "?m @ os'"])
    next
      case False
      from Cons.IH[OF rest, of rc c os]
      obtain os' where
        "stream_loop cfg chunks rc c os = (None, c @ kept_answer_text chunks, os @ os')"
        and "Print ` set (reasoning_fragments chunks) \<subseteq> set os'"
        by blast
      with False nr d show ?thesis
        by (auto simp: kept_answer_text_def reasoning_fragments_def Let_def)
    qed
  qed
qed

text \<open>Where no chunk carries both fragments, the loop keeps every answer fragment.\<close>

lemma kept_answer_text_exclusive:
  assumes "\<forall>ch\<in>set chunks. \<forall>d\<in>set (take 1 (choices ch)).
             fragment (reasoning_content d) = [] \<or> fragment (delta_content d) = []"
  shows "kept_answer_text chunks = answer_text chunks"
  using assms
  by (induction chunks) (auto simp: kept_answer_text_def answer_text_def split: list.splits)

text \<open>
  C5, as the code has it: in a streamed turn whose request succeeds and whose chunks
  all have a first choice, the turn returns, and the transcript has grown by the user
  message and one assistant message whose content is the concatenation, in stream
  order, of the answer fragments of the chunks that carry no reasoning fragment. Every
  reasoning fragment has been printed; none is part of the assistant message.
\<close>

theorem streamed_turn_transcript:
  assumes "config s ''stream'' = Some st" and "truthy st"
    and "config s ''model'' = Some m" and "config s ''temperature'' = Some t"
    and "create_stream ev (m, messages s @ [\<lparr>role = ''user'', content = message\<rparr>], t) = Inr chunks"
    and "\<forall>ch\<in>set chunks. choices ch \<noteq> []"
  shows "\<exists>s'. turn ev message s = Return s'
           \<and> messages s' = messages s @ [\<lparr>role = ''user'', content = message\<rparr>,
                                          \<lparr>role = ''assistant'', content = kept_answer_text chunks\<rparr>]
           \<and> Print ` set (reasoning_fragments chunks) \<subseteq> set (console s')"
proof -
  let ?s1 = "append_message ''user'' message s"
  from stream_loop_complete[OF assms(6), of "config ?s1" "[]" "[]" "[Print (''DeepSeek> '' @ nl)]"]
  obtain os' where
    loop: "stream_loop (config ?s1) chunks [] [] [Print (''DeepSeek> '' @ nl)]
             = (None, kept_answer_text chunks, [Print (''DeepSeek> '' @ nl)] @ os')"
    and echo: "Print ` set (reasoning_fragments chunks) \<subseteq> set os'"
    by auto
  have "turn ev message s =
          Return (append_message ''assistant'' (kept_answer_text chunks)
                    (emit (([Print (''DeepSeek> '' @ nl)] @ os') @ [Print nl]) ?s1))"
    using assms(1-5) loop by (simp add: turn_def append_message_def Let_def)
  with echo show ?thesis
    by (auto simp: append_message_def emit_def)
qed

theorem streamed_turn_transcript_witness:
  "messages (state_of (turn (streaming_env [reasoning ''Let me think'', answer ''42''] []) ''why?''
       (started ''deepseek-reasoner'' False)))
     = [\<lparr>role = ''user'', content = ''why?''\<rparr>, \<lparr>role = ''assistant'', content = ''42''\<rparr>]
   \<and> Print ''Let me think'' \<in> set (console (state_of
       (turn (streaming_env [reasoning ''Let me think'', answer ''42''] []) ''why?''
          (started ''deepseek-reasoner'' False))))"
proof -
  let ?chunks = "[reasoning ''Let me think'', answer ''42'']"
  let ?ev = "streaming_env ?chunks []"
  let ?s = "started ''deepseek-reasoner'' False"
  have h1: "config ?s ''stream'' = Some (VBool True)" by (simp add: started_def)
  have h2: "truthy (VBool True)" by simp
  have h3: "config ?s ''model'' = Some (VStr ''deepseek-reasoner'')"
    by (simp add: started_def dict_of_def)
  have h4: "config ?s ''temperature'' = Some (VNum (7 / 10))"
    by (simp add: started_def dict_of_def)
  have h5: "create_stream ?ev (VStr ''deepseek-reasoner'',
              messages ?s @ [\<lparr>role = ''user'', content = ''why?''\<rparr>], VNum (7 / 10)) = Inr ?chunks"
    by (simp add: streaming_env_def)
  have h6: "\<forall>ch\<in>set ?chunks. choices ch \<noteq> []"
    by (simp add: reasoning_def answer_def)
  have k: "kept_answer_text ?chunks = ''42''" "reasoning_fragments ?chunks = [''Let me think'']"
    "messages ?s = []"
    by (simp_all add: kept_answer_text_def reasoning_fragments_def reasoning_def answer_def
          fragment_def started_def)
  from streamed_turn_transcript[OF h1 h2 h3 h4 h5 h6]
  obtain s' where "turn ?ev ''why?'' ?s = Return s'"
    and "messages s' = messages ?s @ [\<lparr>role = ''user'', content = ''why?''\<rparr>,
                                      \<lparr>role = ''assistant'', content = kept_answer_text ?chunks\<rparr>]"
    and "Print ` set (reasoning_fragments ?chunks) \<subseteq> set (console s')"
    by blast
  then show ?thesis
    by (simp add: k state_of_def)
qed

text \<open>
  The claim C5 as it is written fails on a chunk that carries both fragments: its
  answer fragment \<open>b\<close> is dropped, and the assistant message is empty.
\<close>

theorem answer_fragment_beside_reasoning_is_dropped:
  "answer_text [both ''a'' ''b''] = ''b''
   \<and> messages (state_of (turn (streaming_env [both ''a'' ''b''] []) ''hello''
        (started ''deepseek-chat'' False)))
     = [\<lparr>role = ''user'', content = ''hello''\<rparr>, \<lparr>role = ''assistant'', content = ''''\<rparr>]"
  by (simp add: run_defs answer_text_def)

text \<open>
  C3 fails on the code. The claim: with the reasoning model, the marker is printed
  exactly once per turn, at the first chunk with an answer fragment, so that reasoning
  chunks followed by answer chunks show the reasoning text, the marker, the answer.
  The loop prints the marker only while no reasoning text has been seen: for
  scenario B of the specification it is never printed, and for a stream of two answer
  chunks it is printed twice.
\<close>

theorem marker_missing_after_reasoning:
  "console (state_of (turn (streaming_env [reasoning ''Let me think'', answer ''42''] []) ''why?''
       (started ''deepseek-reasoner'' False)))
     = [Print (''DeepSeek> '' @ nl), Print ''Thinking :'', Print ''Let me think'', Print ''42'',
        Print nl]
   \<and> console (state_of (turn (streaming_env [answer ''Hi'', answer '' there''] []) ''hello''
       (started ''deepseek-reasoner'' False)))
     = [Print (''DeepSeek> '' @ nl), Print nl, Print (marker @ nl), Print ''Hi'',
        Print nl, Print (marker @ nl), Print '' there'', Print nl]"
  by (simp add: run_defs)

section \<open>Whole runs\<close>

text \<open>
  C1 fails on the code. The claim: with \<open>memory\<close> true in the configuration, the
  latest-transcript file is read at start and written at exit whether or not \<open>-m\<close>
  was passed. Line 116 assigns \<open>args.memory\<close> to the configuration on every run, and
  without \<open>-m\<close> that is False: the configuration loads with memory enabled, the flags
  disable it, the file is not read, and after one turn the exit writes nothing.
\<close>

theorem memory_is_off_without_flag:
  "validate_config (initial (scenario_files True) []) = Return (started ''deepseek-chat'' True)
   \<and> memory_enabled (started ''deepseek-chat'' True)
   \<and> \<not> memory_enabled (apply_flags no_flags (started ''deepseek-chat'' True))
   \<and> snd (program (streaming_env [answer ''Hi'', answer '' there''] [''hi'', ''quit'']) no_flags
        (scenario_files True) []) = 0
   \<and> messages (fst (program (streaming_env [answer ''Hi'', answer '' there''] [''hi'', ''quit''])
        no_flags (scenario_files True) []))
     = [\<lparr>role = ''user'', content = ''hi''\<rparr>, \<lparr>role = ''assistant'', content = ''Hi there''\<rparr>]
   \<and> write_log (fst (program (streaming_env [answer ''Hi'', answer '' there''] [''hi'', ''quit''])
        no_flags (scenario_files True) [])) = []
   \<and> files (fst (program (streaming_env [answer ''Hi'', answer '' there''] [''hi'', ''quit''])
        no_flags (scenario_files True) [])) MessagesPath = Some (JsonDoc [hello])"
  by (simp add: run_defs)

text \<open>
  C4 fails on the code. The claim: \<open>-k mykey\<close> with no configuration file writes a new
  one and exits. \<open>ConfigManager()\<close> at line 84 runs \<open>_validate_config\<close> before
  \<open>main\<close> reads the arguments: the process ends there with status 1, and no file is
  written.
\<close>

theorem key_flag_needs_existing_config:
  "program (streaming_env [] [''hello'']) key_flag no_files []
     = (emit [ExitMessage ConfigMissing] (initial no_files []), 1)
   \<and> files (fst (program (streaming_env [] [''hello'']) key_flag no_files [])) ConfigPath = None
   \<and> write_log (fst (program (streaming_env [] [''hello'']) key_flag no_files [])) = []"
  by (simp add: run_defs)

text \<open>With a configuration file in place, \<open>-k\<close> does what the claim describes.\<close>

lemma key_flag_with_config:
  "snd (program (streaming_env [] [''hello'']) key_flag (scenario_files True) []) = 0
   \<and> console (fst (program (streaming_env [] [''hello'']) key_flag (scenario_files True) []))
     = [CreatedNotice]
   \<and> write_log (fst (program (streaming_env [] [''hello'']) key_flag (scenario_files True) []))
     = [(ConfigPath, PySrc [Assign [Name ''DATABASE'']
          (Literal (VDict (default_config ''mykey'' (7 / 10))))])]"
  by (simp add: run_defs)

section \<open>Archiving\<close>

lemma archive_name_empty: "archive_name d [] = d @ ''_None.json''"
  by (simp add: archive_name_def)

lemma save_messages_archives:
  assumes "open_w (subdirs s) (files s) (archive_name d (messages s)) = Inr p"
  shows "\<exists>s'. save_messages d s = Return s'
           \<and> files s' (CwdFile p) = Some (JsonDoc (messages s))
           \<and> messages s' = []"
  using assms by (simp add: save_messages_def write_file_def Let_def)

text \<open>Where the directory exists, a doubled slash in the name does no harm.\<close>

lemma open_w_doubled_slash:
  "open_w [''2026-11-04_1''] no_files ''2026-11-04_1//2.json'' = Inr ''2026-11-04_1/2.json''
   \<and> open_w [] no_files ''2026-11-04_1//2.json'' = Inl FileNotFoundError
   \<and> open_w [] no_files ''2026-11-04_None.json'' = Inr ''2026-11-04_None.json''"
  by (simp add: open_w_def)

text \<open>
  C6 fails on the code. The claim: for every non-empty transcript, \<open>save_messages\<close>
  writes an archive holding the transcript and empties the transcript. The archive
  name contains the first 32 characters of the first message as they are: with a
  slash among them the name has a directory part, \<open>open\<close> raises FileNotFoundError,
  nothing is written and the transcript stays. In a run with \<open>-n -m\<close> the error ends
  the process with status 1.
\<close>

theorem archive_fails_on_slash:
  "messages slash_first \<noteq> []
   \<and> archive_name ''2026-11-04'' (messages slash_first) = ''2026-11-04_1/2.json''
   \<and> save_messages ''2026-11-04'' slash_first = Raise FileNotFoundError slash_first
   \<and> snd (program (streaming_env [] [''quit'']) new_flag slash_files []) = 1
   \<and> write_log (fst (program (streaming_env [] [''quit'']) new_flag slash_files []))
     = [(MessagesPath, JsonDoc [\<lparr>role = ''user'', content = ''1/2''\<rparr>])]"
  by (simp add: run_defs)

end
